theory Spec2Isabelle
  imports Main "HOL-Library.AList"
begin

section \<open>Values, errors and promise outcomes\<close>

text \<open>
  Payloads are opaque structured values; \<open>Undefined\<close> is JavaScript's \<open>undefined\<close>.
  Everything the code throws or rejects with is an \<open>Error\<close> object, identified by its
  message. A promise is pending or has settled once with an outcome.
\<close>

datatype val = Undefined | VBool bool | VNum int | VStr string | VArr "val list"

datatype error = Error string

datatype outcome = Fulfilled val | Rejected error

section \<open>Configuration and channel naming (src/src/core/base.ts)\<close>

text \<open>
  \<open>IpcServiceBaseOptions\<close>: both fields are optional in the source, so a stored option
  may be \<open>undefined\<close> (\<open>None\<close>).
\<close>

record IpcServiceBaseOptions =
  ipcChannelPrefix :: "string option"
  pendingRequestTimeout :: "int option"

text \<open>
  The constructor builds \<^verbatim>\<open>{ ipcChannelPrefix: 'ipc-service:', pendingRequestTimeout: 5000,
  ...(options || {}) }\<close>. The options object may be missing altogether. In a given
  object each key is absent (\<open>None\<close>) or present with a value, and the value of a present
  key may itself be \<open>undefined\<close> (\<open>Some None\<close>). The spread copies every present key over
  the default, an \<open>undefined\<close> value included; only an absent key keeps the default.
\<close>

record givenBaseOptions =
  given_ipcChannelPrefix :: "string option option"
  given_pendingRequestTimeout :: "int option option"

definition spread :: "'a option \<Rightarrow> 'a option option \<Rightarrow> 'a option" where
  "spread dflt key = (case key of None \<Rightarrow> dflt | Some v \<Rightarrow> v)"

definition constructorOptions :: "'g givenBaseOptions_scheme option \<Rightarrow> IpcServiceBaseOptions" where
  "constructorOptions given =
     (case given of
        None \<Rightarrow> \<lparr>ipcChannelPrefix = Some ''ipc-service:'', pendingRequestTimeout = Some 5000\<rparr>
      | Some g \<Rightarrow>
          \<lparr>ipcChannelPrefix = spread (Some ''ipc-service:'') (given_ipcChannelPrefix g),
           pendingRequestTimeout = spread (Some 5000) (given_pendingRequestTimeout g)\<rparr>)"

text \<open>
  \<open>wrapChannel(channel)\<close> is the template
  \<^verbatim>\<open>`${this.options.ipcChannelPrefix || ''}${channel}`\<close>: an absent (or empty) prefix
  contributes the empty string.
\<close>

definition wrapChannel :: "'a IpcServiceBaseOptions_scheme \<Rightarrow> string \<Rightarrow> string" where
  "wrapChannel opts channel =
     (case ipcChannelPrefix opts of None \<Rightarrow> [] | Some p \<Rightarrow> p) @ channel"

text \<open>
  Modelled from the spec: the enum \<open>IpcChannelType\<close> that the services import from
  \<open>../constants\<close>, a file that is not among the sources. The spec names the channels \<open>internal:<operation>\<close> and
  \<open>external:<operation-name>\<close>, so the two role tags are \<open>internal\<close> and \<open>external\<close>.
\<close>

datatype IpcChannelType = Internal | External

fun roleTag :: "IpcChannelType \<Rightarrow> string" where
  "roleTag Internal = ''internal''"
| "roleTag External = ''external''"

text \<open>The template \<^verbatim>\<open>`${IpcChannelType.X}:${operation}`\<close> used at every call site.\<close>

definition roleChannel :: "IpcChannelType \<Rightarrow> string \<Rightarrow> string" where
  "roleChannel role operation = roleTag role @ '':'' @ operation"

definition channelName :: "'a IpcServiceBaseOptions_scheme \<Rightarrow> IpcChannelType \<Rightarrow> string \<Rightarrow> string" where
  "channelName opts role operation = wrapChannel opts (roleChannel role operation)"

text \<open>
  The three control channels of the hub, as \<open>handleInvokeTo\<close>, \<open>handleReplyTo\<close> and
  \<open>handleSendTo\<close> (src/src/core/main.ts) register them, and as the renderer's \<open>invokeTo\<close>,
  \<open>wrapListener\<close> and \<open>sendTo\<close> address them.
\<close>

definition invokeToChannel :: "'a IpcServiceBaseOptions_scheme \<Rightarrow> string" where
  "invokeToChannel opts = wrapChannel opts (roleChannel Internal ''invoke-to'')"

definition replyToChannel :: "'a IpcServiceBaseOptions_scheme \<Rightarrow> string" where
  "replyToChannel opts = wrapChannel opts (roleChannel Internal ''reply-to'')"

definition sendToChannel :: "'a IpcServiceBaseOptions_scheme \<Rightarrow> string" where
  "sendToChannel opts = wrapChannel opts (roleChannel Internal ''send-to'')"

section \<open>The pending request table (src/src/core/base.ts)\<close>

text \<open>
  An entry stores two continuations and a timer handle. Continuations are identified by a
  handle; calling one is recorded in the log \<open>invoked\<close>, in call order. \<open>activeTimers\<close>
  are the handles \<open>setTimeout\<close> has issued that have neither fired nor been cleared.
  The table is a JavaScript \<open>Map\<close>: an association list in insertion order, where
  \<open>set\<close> on a present key replaces the value in place.
\<close>

record pendingRequest =
  resolve :: nat
  reject :: nat
  timeout :: "nat option"

datatype invocation = Resolve nat val | Reject nat error

record 'o BaseIpcService =
  options :: 'o
  pendingRequests :: "(string \<times> pendingRequest) list"
  activeTimers :: "nat list"
  invoked :: "invocation list"
  idSource :: "nat \<Rightarrow> string"
  idCount :: nat

text \<open>
  \<open>generateId\<close> returns \<open>nanoid()\<close>, a random identifier: the service carries the
  sequence of identifiers the generator will return and how many it has drawn.
\<close>

definition generateId ::
  "('o, 'a) BaseIpcService_scheme \<Rightarrow> string \<times> ('o, 'a) BaseIpcService_scheme" where
  "generateId st = (idSource st (idCount st), st\<lparr>idCount := Suc (idCount st)\<rparr>)"

definition clearTimeout :: "nat \<Rightarrow> ('o, 'a) BaseIpcService_scheme \<Rightarrow> ('o, 'a) BaseIpcService_scheme" where
  "clearTimeout h st = st\<lparr>activeTimers := removeAll h (activeTimers st)\<rparr>"

definition clearEntryTimeout ::
  "pendingRequest \<Rightarrow> ('o, 'a) BaseIpcService_scheme \<Rightarrow> ('o, 'a) BaseIpcService_scheme" where
  \<comment> \<open>\<^verbatim>\<open>if (timeout) { clearTimeout(timeout); }\<close>\<close>
  "clearEntryTimeout pr st = (case timeout pr of None \<Rightarrow> st | Some h \<Rightarrow> clearTimeout h st)"

definition addPendingRequest ::
  "string \<Rightarrow> nat \<Rightarrow> nat \<Rightarrow> nat option \<Rightarrow> ('o, 'a) BaseIpcService_scheme \<Rightarrow> ('o, 'a) BaseIpcService_scheme" where
  "addPendingRequest rid res rej tmo st =
     st\<lparr>pendingRequests :=
          AList.update rid \<lparr>resolve = res, reject = rej, timeout = tmo\<rparr> (pendingRequests st)\<rparr>"

definition resolvePendingRequest ::
  "string \<Rightarrow> val \<Rightarrow> ('o, 'a) BaseIpcService_scheme \<Rightarrow> ('o, 'a) BaseIpcService_scheme" where
  "resolvePendingRequest rid dat st =
     (case map_of (pendingRequests st) rid of
        None \<Rightarrow> st
      | Some pr \<Rightarrow>
          (let st1 = clearEntryTimeout pr st;
               st2 = st1\<lparr>pendingRequests := AList.delete rid (pendingRequests st1)\<rparr>
           in st2\<lparr>invoked := invoked st2 @ [Resolve (resolve pr) dat]\<rparr>))"

definition requestRejected :: "string \<Rightarrow> error" where
  \<comment> \<open>\<^verbatim>\<open>new Error(`Request ${id} has been reject`)\<close>\<close>
  "requestRejected rid = Error (''Request '' @ rid @ '' has been reject'')"

definition rejectPendingRequest ::
  "string \<Rightarrow> error option \<Rightarrow> ('o, 'a) BaseIpcService_scheme \<Rightarrow> ('o, 'a) BaseIpcService_scheme" where
  "rejectPendingRequest rid err st =
     (case map_of (pendingRequests st) rid of
        None \<Rightarrow> st
      | Some pr \<Rightarrow>
          (let st1 = clearEntryTimeout pr st;
               st2 = st1\<lparr>pendingRequests := AList.delete rid (pendingRequests st1)\<rparr>
           in st2\<lparr>invoked := invoked st2 @
                [Reject (reject pr) (case err of None \<Rightarrow> requestRejected rid | Some e \<Rightarrow> e)]\<rparr>))"

text \<open>
  \<open>dropAllPendingRequests\<close> is \<open>Map.forEach\<close> with a callback that deletes the entry it
  is visiting: every entry of the table is visited once, in insertion order.
\<close>

definition dropOne ::
  "string \<times> pendingRequest \<Rightarrow> ('o, 'a) BaseIpcService_scheme \<Rightarrow> ('o, 'a) BaseIpcService_scheme" where
  "dropOne e st =
     (let st1 = clearEntryTimeout (snd e) st;
          st2 = st1\<lparr>pendingRequests := AList.delete (fst e) (pendingRequests st1)\<rparr>
      in st2\<lparr>invoked := invoked st2 @ [Reject (reject (snd e)) (requestRejected (fst e))]\<rparr>)"

definition dropAllPendingRequests ::
  "('o, 'a) BaseIpcService_scheme \<Rightarrow> ('o, 'a) BaseIpcService_scheme" where
  "dropAllPendingRequests st = fold dropOne (pendingRequests st) st"

definition destroy :: "('o, 'a) BaseIpcService_scheme \<Rightarrow> ('o, 'a) BaseIpcService_scheme" where
  "destroy st = dropAllPendingRequests st"

section \<open>Promises, timers and races\<close>

text \<open>
  Time is counted in milliseconds from the moment of the call. A \<open>settlement\<close> says
  when and how an operation outside this layer (the transport's reply, a listener's
  awaitable) settles; \<open>None\<close> is an operation that never settles. A promise settles
  once: \<open>settle\<close> on a settled promise changes nothing. The promise a caller awaits is
  described by the attempts to settle it, in the order in which they happen, and
  \<open>observed\<close> is its state at a given time.
\<close>

type_synonym settlement = "(nat \<times> outcome) option"

fun settle :: "outcome \<Rightarrow> outcome option \<Rightarrow> outcome option" where
  "settle out None = Some out"
| "settle out (Some earlier) = Some earlier"

definition awaitAttempts :: "settlement \<Rightarrow> (nat \<times> outcome) list" where
  "awaitAttempts s = (case s of None \<Rightarrow> [] | Some x \<Rightarrow> [x])"

definition raceAttempts :: "settlement \<Rightarrow> settlement \<Rightarrow> (nat \<times> outcome) list" where
  \<comment> \<open>\<open>Promise.race([a, b])\<close>: each input, when it settles, tries to settle the result.\<close>
  "raceAttempts a b =
     (case a of
        None \<Rightarrow> awaitAttempts b
      | Some x \<Rightarrow>
          (case b of
             None \<Rightarrow> [x]
           | Some y \<Rightarrow> if fst y < fst x then [y, x] else [x, y]))"

definition observed :: "(nat \<times> outcome) list \<Rightarrow> nat \<Rightarrow> outcome option" where
  "observed attempts t = fold (\<lambda>a p. settle (snd a) p) (filter (\<lambda>a. fst a \<le> t) attempts) None"

definition firstSettlement :: "(nat \<times> outcome) list \<Rightarrow> settlement" where
  "firstSettlement attempts = (case attempts of [] \<Rightarrow> None | x # _ \<Rightarrow> Some x)"

section \<open>Direct calls and wrapped functions (src/rslib.config.ts, src/unnamed/part_003)\<close>

text \<open>
  \<open>IpcRendererService.invoke(channel, options)\<close>: \<open>timeout\<close> defaults to \<open>0\<close> and \<open>data\<close> to \<open>[]\<close>; the
  request goes out through \<open>ipcRenderer.invoke\<close> on the external channel of the operation.
  The transport is a parameter: it says how the request on a channel settles. Only a
  positive timeout installs a timer and a race.
\<close>

definition invokeTimer :: "int option \<Rightarrow> nat option" where
  "invokeTimer tmo =
     (let timeout = (case tmo of None \<Rightarrow> 0 | Some t \<Rightarrow> t)
      in if timeout > 0 then Some (nat timeout) else None)"

definition invoke ::
  "'a IpcServiceBaseOptions_scheme \<Rightarrow> (string \<Rightarrow> val \<Rightarrow> settlement) \<Rightarrow> string \<Rightarrow>
     int option \<Rightarrow> val option \<Rightarrow> (nat \<times> outcome) list" where
  "invoke opts ipcRendererInvoke channel tmo dat =
     (let ipcChannel = channelName opts External channel;
          invokePromise = ipcRendererInvoke ipcChannel (case dat of None \<Rightarrow> VArr [] | Some d \<Rightarrow> d)
      in case invokeTimer tmo of
           Some d \<Rightarrow>
             raceAttempts invokePromise (Some (d, Rejected (Error ''Invoke function timed out'')))
         | None \<Rightarrow> awaitAttempts invokePromise)"

text \<open>
  What a function does when \<open>processFunction\<close> calls it with its arguments. The call
  \<open>fn(...data)\<close> runs synchronously, and nothing else happens while it runs: it either
  never returns, or it completes after some time by throwing, by returning a plain
  value, or by returning an awaitable. The settlement of a returned awaitable is counted
  from the moment the call returned.
\<close>

datatype behaviour = Throws error | Returns val | ReturnsPromise settlement

datatype run = Diverges | Completes nat behaviour

text \<open>
  \<open>processFunction(fn, options)\<close>: \<open>timeout\<close> defaults to \<open>0\<close>. First
  \<open>Promise.resolve(fn(...data))\<close> is evaluated. If the call never returns, neither does
  \<open>processFunction\<close>; if it throws, the result is rejected with what was thrown and no
  timer is made. Otherwise, at the time \<open>d\<close> at which the call returned, a positive
  timeout creates the timer (which fires \<open>timeout\<close> later) and the race; without one the
  result follows the execution alone.
\<close>

definition processTimer :: "('a \<Rightarrow> run) \<Rightarrow> 'a \<Rightarrow> int option \<Rightarrow> nat option" where
  \<comment> \<open>the delay of the timer that is created, if one is\<close>
  "processTimer fn dat tmo =
     (let timeout = (case tmo of None \<Rightarrow> 0 | Some t \<Rightarrow> t)
      in case fn dat of
           Diverges \<Rightarrow> None
         | Completes d (Throws e) \<Rightarrow> None
         | Completes d b \<Rightarrow> if timeout > 0 then Some (nat timeout) else None)"

definition processFunction ::
  "('a \<Rightarrow> run) \<Rightarrow> 'a \<Rightarrow> int option \<Rightarrow> (nat \<times> outcome) list" where
  "processFunction fn dat tmo =
     (case fn dat of
        Diverges \<Rightarrow> []
      | Completes d (Throws e) \<Rightarrow> [(d, Rejected e)]
      | Completes d (Returns v) \<Rightarrow>
          (case processTimer fn dat tmo of
             Some T \<Rightarrow> raceAttempts (Some (d, Fulfilled v))
                         (Some (d + T, Rejected (Error ''Process function timed out'')))
           | None \<Rightarrow> awaitAttempts (Some (d, Fulfilled v)))
      | Completes d (ReturnsPromise s) \<Rightarrow>
          (let functionExecution = map_option (\<lambda>a. (d + fst a, snd a)) s
           in case processTimer fn dat tmo of
                Some T \<Rightarrow> raceAttempts functionExecution
                            (Some (d + T, Rejected (Error ''Process function timed out'')))
              | None \<Rightarrow> awaitAttempts functionExecution))"

section \<open>Relay messages\<close>

text \<open>
  The options of \<open>invokeTo\<close> and \<open>sendTo\<close>, the metadata the hub attaches to a
  forwarded message, and the reply a wrapped listener sends on the reply channel.
  \<open>handleSendTo\<close> attaches only the sender, so request id and timeout may be absent.
\<close>

record RequestOptions =
  req_timeout :: "int option"
  req_data :: val
  windowParams :: "val list option"
  webContentsId :: "int option"

record relayMeta =
  requestId :: "string option"
  senderId :: int
  meta_timeout :: "int option"

record sentMessage =
  target :: int
  sent_channel :: string
  sent_data :: val
  sent_meta :: relayMeta

record replyMessage =
  reply_channel :: string
  reply_requestId :: "string option"
  reply_data :: val
  reply_error :: "error option"

record relayCall =
  call_channel :: string
  call_operation :: string
  call_options :: RequestOptions

section \<open>The renderer's relay operations (src/rslib.config.ts)\<close>

text \<open>
  \<open>invokeTo\<close> and \<open>sendTo\<close> only hand the wrapped operation channel and the options to
  the transport, on the hub's control channels; the service itself is not touched.
\<close>

definition invokeTo ::
  "('o::type) IpcServiceBaseOptions_scheme BaseIpcService \<Rightarrow> string \<Rightarrow> RequestOptions \<Rightarrow>
     relayCall \<times> 'o IpcServiceBaseOptions_scheme BaseIpcService" where
  "invokeTo st channel ro =
     (\<lparr>call_channel = invokeToChannel (options st),
       call_operation = channelName (options st) External channel,
       call_options = ro\<rparr>, st)"

definition sendTo ::
  "('o::type) IpcServiceBaseOptions_scheme BaseIpcService \<Rightarrow> string \<Rightarrow> RequestOptions \<Rightarrow>
     relayCall \<times> 'o IpcServiceBaseOptions_scheme BaseIpcService" where
  "sendTo st channel ro =
     (\<lparr>call_channel = sendToChannel (options st),
       call_operation = channelName (options st) External channel,
       call_options = ro\<rparr>, st)"

text \<open>
  \<open>wrapListener(listener)\<close>: the listener runs under \<open>processFunction\<close> with the
  metadata's timeout; while \<open>processFunction\<close> has not settled, nothing is sent. A
  fulfilled result is assigned to \<open>data\<close>, a rejection is caught
  into \<open>rspError\<close>; the other variable stays \<open>undefined\<close>. Then the single
  \<open>ipcRenderer.send\<close> after the \<open>try\<close>/\<open>catch\<close> emits \<open>requestId\<close>, \<open>data\<close> and
  \<open>rspError\<close> on the reply channel. The result lists the replies sent, with their times.
\<close>

definition replyOf :: "'a IpcServiceBaseOptions_scheme \<Rightarrow> relayMeta \<Rightarrow> outcome \<Rightarrow> replyMessage" where
  "replyOf opts meta out =
     \<lparr>reply_channel = replyToChannel opts,
      reply_requestId = requestId meta,
      reply_data = (case out of Fulfilled v \<Rightarrow> v | Rejected e \<Rightarrow> Undefined),
      reply_error = (case out of Fulfilled v \<Rightarrow> None | Rejected e \<Rightarrow> Some e)\<rparr>"

definition wrapListener ::
  "'a IpcServiceBaseOptions_scheme \<Rightarrow> (val \<Rightarrow> relayMeta \<Rightarrow> run) \<Rightarrow> val \<Rightarrow> relayMeta \<Rightarrow>
     (nat \<times> replyMessage) list" where
  "wrapListener opts listener dat meta =
     (case firstSettlement
             (processFunction (case_prod listener) (dat, meta) (meta_timeout meta)) of
        None \<Rightarrow> []
      | Some s \<Rightarrow> [(fst s, replyOf opts meta (snd s))])"




section \<open>The hub (src/src/core/main.ts)\<close>

record IpcMainServiceOptions = IpcServiceBaseOptions +
  getWebContentsId :: "(val list \<Rightarrow> int option) option"

text \<open>
  The hub's constructor passes its options to the base constructor, so the same spread
  also copies the key \<open>getWebContentsId\<close>, for which there is no default.
\<close>

record givenMainOptions = givenBaseOptions +
  given_getWebContentsId :: "(val list \<Rightarrow> int option) option option"

definition mainConstructorOptions :: "givenMainOptions option \<Rightarrow> IpcMainServiceOptions" where
  "mainConstructorOptions given =
     \<lparr>ipcChannelPrefix = ipcChannelPrefix (constructorOptions given),
      pendingRequestTimeout = pendingRequestTimeout (constructorOptions given),
      getWebContentsId =
        (case given of None \<Rightarrow> None | Some g \<Rightarrow> spread None (given_getWebContentsId g))\<rparr>"

text \<open>
  The hub's state beyond the base service: the closure of every \<open>setTimeout\<close> it has
  made (the request id to reject and the delay), the identifiers for which
  \<open>webContents.fromId\<close> finds a connection, the messages passed to \<open>target.send\<close>, the
  invocations of the invoke-to handler that are suspended at their \<open>await\<close> (with the
  request id each one generated), the value each finished invocation returned to
  \<open>ipcMain.handle\<close>, which is what the caller's \<open>ipcRenderer.invoke\<close> settles with, and
  the errors thrown out of \<open>ipcMain.on\<close> listeners.
\<close>

record IpcMainService = "IpcMainServiceOptions BaseIpcService" +
  nextTimer :: nat
  timerTasks :: "(nat \<times> string \<times> int option) list"
  liveWebContents :: "int list"
  sent :: "sentMessage list"
  awaiting :: "(nat \<times> string) list"
  returned :: "(nat \<times> outcome) list"
  uncaught :: "error list"

definition newIpcMainService ::
  "IpcMainServiceOptions \<Rightarrow> (nat \<Rightarrow> string) \<Rightarrow> int list \<Rightarrow> IpcMainService" where
  "newIpcMainService opts ids live =
     \<lparr>options = opts, pendingRequests = [], activeTimers = [], invoked = [],
      idSource = ids, idCount = 0, nextTimer = 0, timerTasks = [], liveWebContents = live,
      sent = [], awaiting = [], returned = [], uncaught = []\<rparr>"

text \<open>Numbers in template strings: decimal digits, with a sign for negative numbers.\<close>

fun showNat :: "nat \<Rightarrow> string" where
  "showNat n =
     (if n < 10 then [char_of (48 + n)] else showNat (n div 10) @ [char_of (48 + n mod 10)])"

definition showInt :: "int \<Rightarrow> string" where
  "showInt i = (if i < 0 then CHR ''-'' # showNat (nat (- i)) else showNat (nat i))"

text \<open>
  The target of a relay, as both handlers compute it: the explicit \<open>webContentsId\<close> if it
  is truthy (present and not \<open>0\<close>), otherwise the lookup function applied to
  \<open>windowParams\<close> when both exist. A falsy result throws; so does an identifier without a
  live connection.
\<close>

definition targetWebContentsId :: "IpcMainServiceOptions \<Rightarrow> RequestOptions \<Rightarrow> int option" where
  "targetWebContentsId opts ro =
     (case webContentsId ro of
        Some i \<Rightarrow>
          if i \<noteq> 0 then Some i
          else (case windowParams ro of
                  None \<Rightarrow> None
                | Some ps \<Rightarrow> (case getWebContentsId opts of None \<Rightarrow> None | Some f \<Rightarrow> f ps))
      | None \<Rightarrow>
          (case windowParams ro of
             None \<Rightarrow> None
           | Some ps \<Rightarrow> (case getWebContentsId opts of None \<Rightarrow> None | Some f \<Rightarrow> f ps)))"

definition findTarget :: "IpcMainService \<Rightarrow> RequestOptions \<Rightarrow> error + int" where
  "findTarget st ro =
     (case targetWebContentsId (options st) ro of
        None \<Rightarrow> Inl (Error ''webContentsId is required'')
      | Some i \<Rightarrow>
          if i = 0 then Inl (Error ''webContentsId is required'')
          else if i \<notin> set (liveWebContents st)
          then Inl (Error (''webContents with id '' @ showInt i @ '' not found''))
          else Inr i)"

text \<open>
  The invoke-to handler up to its \<open>await\<close>, for the invocation \<open>c\<close>. The request id is
  generated first. An error thrown while resolving the target is caught: the
  \<open>catch\<close> block calls \<open>rejectPendingRequest\<close> and the handler returns \<open>undefined\<close>.
  Otherwise the promise executor sets the timer, sends the message with the relay
  metadata and registers the pending entry, whose two continuations settle the promise
  of invocation \<open>c\<close>.
\<close>

definition handleInvokeTo ::
  "nat \<Rightarrow> int \<Rightarrow> string \<Rightarrow> RequestOptions \<Rightarrow> IpcMainService \<Rightarrow> IpcMainService" where
  "handleInvokeTo c sender channel ro st0 =
     (let (rid, st) = generateId st0;
          wait = (case req_timeout ro of
                    None \<Rightarrow> pendingRequestTimeout (options st)
                  | Some t \<Rightarrow> Some t)
      in case findTarget st ro of
           Inl err \<Rightarrow>
             (let st1 = rejectPendingRequest rid (Some err) st
              in st1\<lparr>returned := returned st1 @ [(c, Fulfilled Undefined)]\<rparr>)
         | Inr tgt \<Rightarrow>
             (let h = nextTimer st;
                  st1 = st\<lparr>nextTimer := Suc h,
                           activeTimers := activeTimers st @ [h],
                           timerTasks := timerTasks st @ [(h, rid, wait)]\<rparr>;
                  st2 = st1\<lparr>sent := sent st1 @
                           [\<lparr>target = tgt, sent_channel = channel, sent_data = req_data ro,
                             sent_meta = \<lparr>requestId = Some rid, senderId = sender,
                                          meta_timeout = wait\<rparr>\<rparr>]\<rparr>;
                  st3 = addPendingRequest rid c c (Some h) st2
              in st3\<lparr>awaiting := awaiting st3 @ [(c, rid)]\<rparr>))"

text \<open>
  The state of the promise of invocation \<open>c\<close>: the first call of one of its two
  continuations decides it.
\<close>

fun promiseState :: "nat \<Rightarrow> invocation list \<Rightarrow> outcome option" where
  "promiseState c [] = None"
| "promiseState c (Resolve k v # rest) = (if k = c then Some (Fulfilled v) else promiseState c rest)"
| "promiseState c (Reject k e # rest) = (if k = c then Some (Rejected e) else promiseState c rest)"

text \<open>
  The invoke-to handler after its \<open>await\<close>: \<open>return await promise\<close> inside \<open>try\<close>
  returns the value of a fulfilled promise; a rejected promise throws inside the
  \<open>try\<close>, so the \<open>catch\<close> block runs and the handler returns \<open>undefined\<close>.
\<close>

definition resumeInvokeTo :: "nat \<Rightarrow> IpcMainService \<Rightarrow> IpcMainService" where
  "resumeInvokeTo c st =
     (case map_of (awaiting st) c of
        None \<Rightarrow> st
      | Some rid \<Rightarrow>
          (case promiseState c (invoked st) of
             None \<Rightarrow> st
           | Some (Fulfilled v) \<Rightarrow>
               st\<lparr>awaiting := AList.delete c (awaiting st),
                  returned := returned st @ [(c, Fulfilled v)]\<rparr>
           | Some (Rejected err) \<Rightarrow>
               (let st1 = rejectPendingRequest rid (Some err) st
                in st1\<lparr>awaiting := AList.delete c (awaiting st1),
                       returned := returned st1 @ [(c, Fulfilled Undefined)]\<rparr>)))"

text \<open>
  The callback of the timer: \<open>rejectPendingRequest(requestId, new Error('Request
  timeout'))\<close>, then \<open>clearTimeout\<close> of itself.
\<close>

definition timerFires :: "nat \<Rightarrow> IpcMainService \<Rightarrow> IpcMainService" where
  "timerFires h st =
     (if h \<in> set (activeTimers st) then
        (case map_of (timerTasks st) h of
           None \<Rightarrow> st
         | Some task \<Rightarrow>
             (let st1 = st\<lparr>activeTimers := removeAll h (activeTimers st)\<rparr>;
                  st2 = rejectPendingRequest (fst task) (Some (Error ''Request timeout'')) st1
              in clearTimeout h st2))
      else st)"

text \<open>
  The reply-to listener. A reply without a request id (\<open>undefined\<close>) finds no entry in
  a table keyed by strings.
\<close>

definition handleReplyTo ::
  "string option \<Rightarrow> val \<Rightarrow> error option \<Rightarrow> IpcMainService \<Rightarrow> IpcMainService" where
  "handleReplyTo rid responseData err st =
     (case rid of
        None \<Rightarrow> st
      | Some r \<Rightarrow>
          (case err of
             Some e \<Rightarrow> rejectPendingRequest r (Some e) st
           | None \<Rightarrow> resolvePendingRequest r responseData st))"

text \<open>The send-to listener rethrows what it catches: \<open>Inl\<close> is the error thrown.\<close>

definition handleSendTo ::
  "int \<Rightarrow> string \<Rightarrow> RequestOptions \<Rightarrow> IpcMainService \<Rightarrow> error + IpcMainService" where
  "handleSendTo sender channel ro st =
     (case findTarget st ro of
        Inl err \<Rightarrow> Inl err
      | Inr tgt \<Rightarrow>
          Inr (st\<lparr>sent := sent st @
                 [\<lparr>target = tgt, sent_channel = channel, sent_data = req_data ro,
                   sent_meta = \<lparr>requestId = None, senderId = sender,
                                meta_timeout = None\<rparr>\<rparr>]\<rparr>))"

text \<open>
  What can happen at the hub, one event at a time: a message on one of the three control
  channels, a timer that fires, and a suspended handler invocation that continues.
\<close>

datatype event =
    InvokeTo nat int string RequestOptions
  | ReplyTo "string option" val "error option"
  | SendTo int string RequestOptions
  | TimerFires nat
  | Resume nat

fun hubStep :: "event \<Rightarrow> IpcMainService \<Rightarrow> IpcMainService" where
  "hubStep (InvokeTo c sender channel ro) st = handleInvokeTo c sender channel ro st"
| "hubStep (ReplyTo rid responseData err) st = handleReplyTo rid responseData err st"
| "hubStep (SendTo sender channel ro) st =
     (case handleSendTo sender channel ro st of
        Inl err \<Rightarrow> st\<lparr>uncaught := uncaught st @ [err]\<rparr>
      | Inr st' \<Rightarrow> st')"
| "hubStep (TimerFires h) st = timerFires h st"
| "hubStep (Resume c) st = resumeInvokeTo c st"

definition callerResult :: "IpcMainService \<Rightarrow> nat \<Rightarrow> outcome option" where
  "callerResult st c = map_of (returned st) c"

section \<open>A sample deployment\<close>

text \<open>
  The deployment of the README: default options, a lookup function that knows the window
  \<open>sub\<close> as connection \<open>2\<close>, live connections \<open>1\<close> (the caller) and \<open>2\<close>, and a hub whose
  generator returns \<open>id-0\<close>, \<open>id-1\<close>, ... The caller's own generator would return
  \<open>caller-0\<close>, \<open>caller-1\<close>, ...
\<close>

definition sampleOptions :: IpcMainServiceOptions where
  "sampleOptions =
     mainConstructorOptions
       (Some \<lparr>given_ipcChannelPrefix = None, given_pendingRequestTimeout = None,
              given_getWebContentsId =
                Some (Some (\<lambda>ps. if ps = [VStr ''sub''] then Some 2 else None))\<rparr>)"

definition sampleHub :: IpcMainService where
  "sampleHub = newIpcMainService sampleOptions (\<lambda>n. ''id-'' @ showNat n) [1, 2]"

definition sampleRenderer :: "IpcServiceBaseOptions BaseIpcService" where
  "sampleRenderer =
     \<lparr>options = constructorOptions (None :: givenBaseOptions option),
      pendingRequests = [], activeTimers = [], invoked = [],
      idSource = (\<lambda>n. ''caller-'' @ showNat n), idCount = 0\<rparr>"

definition relayRequest :: "int option \<Rightarrow> val list option \<Rightarrow> int option \<Rightarrow> RequestOptions" where
  "relayRequest tmo params wcid =
     \<lparr>req_timeout = tmo, req_data = VArr [VNum 7], windowParams = params, webContentsId = wcid\<rparr>"

text \<open>
  Listeners: one returns \<open>true\<close> at once; one throws at once; one returns at once a
  promise that never settles; one returns at once a promise that is fulfilled with
  \<open>true\<close> after 200 milliseconds; one computes for 200 milliseconds and then returns
  \<open>true\<close>; one never returns.
\<close>

definition trueListener :: "val \<Rightarrow> relayMeta \<Rightarrow> run" where
  "trueListener dat meta = Completes 0 (Returns (VBool True))"


definition hangingListener :: "val \<Rightarrow> relayMeta \<Rightarrow> run" where
  "hangingListener dat meta = Completes 0 (ReturnsPromise None)"




text \<open>
  A transport for direct calls: the hub's handler for \<open>slow\<close> replies \<open>true\<close> after 200
  milliseconds, the one for \<open>ping\<close> at once; no other channel is ever answered.
\<close>

definition sampleTransport :: "string \<Rightarrow> val \<Rightarrow> settlement" where
  "sampleTransport ipcChannel dat =
     (if ipcChannel = ''ipc-service:external:slow'' then Some (200, Fulfilled (VBool True))
      else if ipcChannel = ''ipc-service:external:ping'' then Some (0, Fulfilled (VBool True))
      else None)"

section \<open>Channel naming\<close>

lemma wrapChannel_inj: "(wrapChannel opts c1 = wrapChannel opts c2) = (c1 = c2)"
  by (simp add: wrapChannel_def)

lemma roleChannel_inj:
  "(roleChannel r1 op1 = roleChannel r2 op2) = (r1 = r2 \<and> op1 = op2)"
  by (cases r1; cases r2) (simp_all add: roleChannel_def)

text \<open>
  C8: \<open>wrapChannel\<close> is a total function of the options and its argument, and the naming
  scheme is injective: under one prefix, two (role, operation) pairs get the same channel
  name only if they are the same pair; in particular an internal control channel and an
  external operation channel never share a name.
\<close>

theorem channel_names_injective:
  "(channelName opts r1 op1 = channelName opts r2 op2) = (r1 = r2 \<and> op1 = op2)
   \<and> (wrapChannel opts c1 = wrapChannel opts c2) = (c1 = c2)
   \<and> channelName opts Internal op1 \<noteq> channelName opts External op2"
  by (simp add: channelName_def wrapChannel_inj roleChannel_inj)

text \<open>
  C9, as the code has it: the three control channels are the wrapped names
  \<open>internal:invoke-to\<close>, \<open>internal:reply-to\<close> and \<open>internal:send-to\<close>; with the default
  prefix they are \<open>ipc-service:internal:invoke-to\<close>, \<open>ipc-service:internal:reply-to\<close> and
  \<open>ipc-service:internal:send-to\<close>.
\<close>

theorem control_channel_names:
  "invokeToChannel opts = wrapChannel opts ''internal:invoke-to''
   \<and> replyToChannel opts = wrapChannel opts ''internal:reply-to''
   \<and> sendToChannel opts = wrapChannel opts ''internal:send-to''
   \<and> invokeToChannel (constructorOptions (None :: givenBaseOptions option))
       = ''ipc-service:internal:invoke-to''
   \<and> replyToChannel (constructorOptions (None :: givenBaseOptions option))
       = ''ipc-service:internal:reply-to''
   \<and> sendToChannel (constructorOptions (None :: givenBaseOptions option))
       = ''ipc-service:internal:send-to''"
  by (simp add: invokeToChannel_def replyToChannel_def sendToChannel_def roleChannel_def
      wrapChannel_def constructorOptions_def)

text \<open>
  The request channel of the relay is not named \<open>internal:forward-to-peer\<close>, neither
  with the default prefix, nor before prefixing, nor with an empty prefix.
\<close>

theorem forward_to_peer_counterexample:
  "invokeToChannel (constructorOptions (None :: givenBaseOptions option))
     \<noteq> ''internal:forward-to-peer''
   \<and> invokeToChannel (constructorOptions (None :: givenBaseOptions option))
     \<noteq> wrapChannel (constructorOptions (None :: givenBaseOptions option))
          ''internal:forward-to-peer''
   \<and> invokeToChannel \<lparr>ipcChannelPrefix = Some [], pendingRequestTimeout = None\<rparr>
     \<noteq> ''internal:forward-to-peer''"
  by (simp add: invokeToChannel_def roleChannel_def wrapChannel_def constructorOptions_def)

section \<open>The pending request table\<close>

lemma resolve_absent:
  "map_of (pendingRequests st) rid = None \<Longrightarrow> resolvePendingRequest rid d st = st"
  by (simp add: resolvePendingRequest_def)

lemma reject_absent:
  "map_of (pendingRequests st) rid = None \<Longrightarrow> rejectPendingRequest rid e st = st"
  by (simp add: rejectPendingRequest_def)

lemma map_of_delete_same: "map_of (AList.delete k al) k = None"
  by (simp add: AList.delete_conv')

lemma pending_clearEntryTimeout [simp]:
  "pendingRequests (clearEntryTimeout pr st) = pendingRequests st"
  by (simp add: clearEntryTimeout_def clearTimeout_def split: option.splits)

lemma invoked_clearEntryTimeout [simp]:
  "invoked (clearEntryTimeout pr st) = invoked st"
  by (simp add: clearEntryTimeout_def clearTimeout_def split: option.splits)

lemma timers_clearEntryTimeout:
  "activeTimers (clearEntryTimeout pr st) =
     (case timeout pr of None \<Rightarrow> activeTimers st | Some h \<Rightarrow> removeAll h (activeTimers st))"
  by (simp add: clearEntryTimeout_def clearTimeout_def split: option.splits)

lemma resolve_present:
  assumes "map_of (pendingRequests st) rid = Some pr"
  shows "pendingRequests (resolvePendingRequest rid d st) = AList.delete rid (pendingRequests st)"
    and "invoked (resolvePendingRequest rid d st) = invoked st @ [Resolve (resolve pr) d]"
    and "activeTimers (resolvePendingRequest rid d st) =
      (case timeout pr of None \<Rightarrow> activeTimers st | Some h \<Rightarrow> removeAll h (activeTimers st))"
  using assms by (simp_all add: resolvePendingRequest_def Let_def timers_clearEntryTimeout)

lemma reject_present:
  assumes "map_of (pendingRequests st) rid = Some pr"
  shows "pendingRequests (rejectPendingRequest rid e st) = AList.delete rid (pendingRequests st)"
    and "invoked (rejectPendingRequest rid e st) =
       invoked st @ [Reject (reject pr) (case e of None \<Rightarrow> requestRejected rid | Some x \<Rightarrow> x)]"
    and "activeTimers (rejectPendingRequest rid e st) =
      (case timeout pr of None \<Rightarrow> activeTimers st | Some h \<Rightarrow> removeAll h (activeTimers st))"
  using assms by (simp_all add: rejectPendingRequest_def Let_def timers_clearEntryTimeout)

lemma distinct_keys_kept:
  "distinct (map fst (pendingRequests st)) \<Longrightarrow>
     distinct (map fst (pendingRequests (addPendingRequest rid a b c st)))
   \<and> distinct (map fst (pendingRequests (resolvePendingRequest rid d st)))
   \<and> distinct (map fst (pendingRequests (rejectPendingRequest rid e st)))"
  by (simp add: addPendingRequest_def resolvePendingRequest_def rejectPendingRequest_def Let_def
      AList.distinct_update AList.distinct_delete split: option.splits)

text \<open>
  C4: a pending entry is settled at most once. For a request id that is present, the
  first \<open>resolvePendingRequest\<close> or \<open>rejectPendingRequest\<close> cancels the entry's timer,
  removes the entry and calls the stored continuation once (with the data, the given
  error, or the generic error when none is given); after that, any further resolve or
  reject for the same id leaves the service exactly as it is.
\<close>

theorem settled_at_most_once:
  assumes "map_of (pendingRequests st) rid = Some pr"
  shows "(let st' = resolvePendingRequest rid d st in
            map_of (pendingRequests st') rid = None
          \<and> pendingRequests st' = AList.delete rid (pendingRequests st)
          \<and> invoked st' = invoked st @ [Resolve (resolve pr) d]
          \<and> activeTimers st' =
              (case timeout pr of None \<Rightarrow> activeTimers st | Some h \<Rightarrow> removeAll h (activeTimers st))
          \<and> resolvePendingRequest rid d' st' = st'
          \<and> rejectPendingRequest rid e' st' = st')
       \<and> (let st' = rejectPendingRequest rid e st in
            map_of (pendingRequests st') rid = None
          \<and> pendingRequests st' = AList.delete rid (pendingRequests st)
          \<and> invoked st' = invoked st @
              [Reject (reject pr) (case e of None \<Rightarrow> requestRejected rid | Some x \<Rightarrow> x)]
          \<and> activeTimers st' =
              (case timeout pr of None \<Rightarrow> activeTimers st | Some h \<Rightarrow> removeAll h (activeTimers st))
          \<and> resolvePendingRequest rid d' st' = st'
          \<and> rejectPendingRequest rid e' st' = st')"
proof -
  have a: "map_of (pendingRequests (resolvePendingRequest rid d st)) rid = None"
    by (simp add: resolve_present(1)[OF assms] map_of_delete_same)
  have b: "map_of (pendingRequests (rejectPendingRequest rid e st)) rid = None"
    by (simp add: reject_present(1)[OF assms] map_of_delete_same)
  show ?thesis
    unfolding Let_def
    using a b resolve_present[OF assms] reject_present[OF assms]
    by (simp add: resolve_absent reject_absent)
qed

theorem settled_at_most_once_witness:
  "map_of (pendingRequests (addPendingRequest ''id-0'' 3 4 (Some 7) (sampleHub\<lparr>activeTimers := [7]\<rparr>))) ''id-0''
      = Some \<lparr>resolve = 3, reject = 4, timeout = Some 7\<rparr>
   \<and> invoked (resolvePendingRequest ''id-0'' (VBool True)
        (addPendingRequest ''id-0'' 3 4 (Some 7) (sampleHub\<lparr>activeTimers := [7]\<rparr>)))
      = [Resolve 3 (VBool True)]
   \<and> activeTimers (resolvePendingRequest ''id-0'' (VBool True)
        (addPendingRequest ''id-0'' 3 4 (Some 7) (sampleHub\<lparr>activeTimers := [7]\<rparr>))) = []
   \<and> rejectPendingRequest ''id-0'' (Some (Error ''late''))
        (resolvePendingRequest ''id-0'' (VBool True)
          (addPendingRequest ''id-0'' 3 4 (Some 7) (sampleHub\<lparr>activeTimers := [7]\<rparr>)))
      = resolvePendingRequest ''id-0'' (VBool True)
          (addPendingRequest ''id-0'' 3 4 (Some 7) (sampleHub\<lparr>activeTimers := [7]\<rparr>))"
proof -
  have h: "map_of (pendingRequests (addPendingRequest ''id-0'' 3 4 (Some 7) (sampleHub\<lparr>activeTimers := [7]\<rparr>))) ''id-0''
      = Some \<lparr>resolve = 3, reject = 4, timeout = Some 7\<rparr>"
    by (simp add: addPendingRequest_def sampleHub_def newIpcMainService_def)
  have i: "invoked (addPendingRequest ''id-0'' 3 4 (Some 7) (sampleHub\<lparr>activeTimers := [7]\<rparr>)) = []"
    and t: "activeTimers (addPendingRequest ''id-0'' 3 4 (Some 7) (sampleHub\<lparr>activeTimers := [7]\<rparr>)) = [7]"
    by (simp_all add: addPendingRequest_def sampleHub_def newIpcMainService_def)
  show ?thesis
    using h i t settled_at_most_once [OF h, of "VBool True" Undefined "Some (Error ''late'')" None]
    by (simp add: Let_def)
qed

lemma fold_dropOne_pending:
  "pendingRequests (fold dropOne xs st) = fold (\<lambda>e. AList.delete (fst e)) xs (pendingRequests st)"
  by (induction xs arbitrary: st) (simp_all add: dropOne_def Let_def)

lemma fold_dropOne_invoked:
  "invoked (fold dropOne xs st) =
     invoked st @ map (\<lambda>e. Reject (reject (snd e)) (requestRejected (fst e))) xs"
  by (induction xs arbitrary: st) (simp_all add: dropOne_def Let_def)

lemma dropOne_timers:
  "activeTimers (dropOne x st) = filter (\<lambda>h. Some h \<noteq> timeout (snd x)) (activeTimers st)"
  by (cases "timeout (snd x)")
     (auto simp: dropOne_def Let_def timers_clearEntryTimeout removeAll_filter_not_eq
           intro: filter_cong)

lemma fold_dropOne_timers:
  "activeTimers (fold dropOne xs st) =
     filter (\<lambda>h. Some h \<notin> set (map (\<lambda>e. timeout (snd e)) xs)) (activeTimers st)"
proof (induction xs arbitrary: st)
  case Nil
  show ?case by simp
next
  case (Cons x xs)
  have "activeTimers (fold dropOne (x # xs) st) =
        filter (\<lambda>h. Some h \<notin> set (map (\<lambda>e. timeout (snd e)) xs)) (activeTimers (dropOne x st))"
    using Cons.IH [of "dropOne x st"] by simp
  also have "\<dots> = filter (\<lambda>h. Some h \<notin> set (map (\<lambda>e. timeout (snd e)) (x # xs))) (activeTimers st)"
    by (auto simp: dropOne_timers intro: filter_cong)
  finally show ?case .
qed

lemma fold_delete_all:
  "fst ` set al \<subseteq> fst ` set xs \<Longrightarrow> fold (\<lambda>e. AList.delete (fst e)) xs al = []"
proof (induction xs arbitrary: al)
  case Nil
  then show ?case by simp
next
  case (Cons x xs)
  have "fst ` set (AList.delete (fst x) al) \<subseteq> fst ` set xs"
    using Cons.prems by (auto simp: AList.delete_eq)
  then show ?case using Cons.IH by simp
qed

lemma dropAll_empty: "pendingRequests st = [] \<Longrightarrow> dropAllPendingRequests st = st"
  by (simp add: dropAllPendingRequests_def)

text \<open>
  C7: \<open>dropAllPendingRequests\<close> empties the table, calls the reject continuation of every
  one of the N entries once, in table order, with the generic error
  \<open>Request <id> has been reject\<close> that carries the entry's id, and cancels every entry's
  timer. Calling it again, or with an empty table, changes nothing; \<open>destroy\<close> is this
  bulk drop and nothing else.
\<close>

theorem dropAll_rejects_every_entry:
  "pendingRequests (dropAllPendingRequests st) = []
   \<and> invoked (dropAllPendingRequests st) =
       invoked st @ map (\<lambda>e. Reject (reject (snd e)) (Error (''Request '' @ fst e @ '' has been reject'')))
                       (pendingRequests st)
   \<and> length (invoked (dropAllPendingRequests st)) = length (invoked st) + length (pendingRequests st)
   \<and> activeTimers (dropAllPendingRequests st) =
       filter (\<lambda>h. Some h \<notin> set (map (\<lambda>e. timeout (snd e)) (pendingRequests st))) (activeTimers st)
   \<and> dropAllPendingRequests (dropAllPendingRequests st) = dropAllPendingRequests st
   \<and> dropAllPendingRequests (st\<lparr>pendingRequests := []\<rparr>) = st\<lparr>pendingRequests := []\<rparr>
   \<and> destroy st = dropAllPendingRequests st"
proof -
  have e: "pendingRequests (dropAllPendingRequests st) = []"
    by (simp add: dropAllPendingRequests_def fold_dropOne_pending fold_delete_all)
  have i: "invoked (dropAllPendingRequests st) =
       invoked st @ map (\<lambda>e. Reject (reject (snd e)) (Error (''Request '' @ fst e @ '' has been reject'')))
                       (pendingRequests st)"
    by (simp add: dropAllPendingRequests_def fold_dropOne_invoked requestRejected_def)
  have t: "activeTimers (dropAllPendingRequests st) =
       filter (\<lambda>h. Some h \<notin> set (map (\<lambda>e. timeout (snd e)) (pendingRequests st))) (activeTimers st)"
    by (simp only: dropAllPendingRequests_def fold_dropOne_timers)
  have again: "dropAllPendingRequests (dropAllPendingRequests st) = dropAllPendingRequests st"
    using e by (rule dropAll_empty)
  have zero: "dropAllPendingRequests (st\<lparr>pendingRequests := []\<rparr>) = st\<lparr>pendingRequests := []\<rparr>"
    by (simp add: dropAll_empty)
  show ?thesis
    using e i t again zero by (simp add: destroy_def)
qed

section \<open>Direct calls and timeouts\<close>

text \<open>
  C5: a direct \<open>invoke\<close> with a positive timeout \<open>T\<close> whose reply arrives after \<open>T\<close>
  (or never) is rejected at \<open>T\<close> with the error \<open>Invoke function timed out\<close>. The late
  reply is a second attempt to settle the promise and changes nothing: at every time from
  \<open>T\<close> on, also after the reply has arrived, the caller observes the same rejection.
\<close>

theorem invoke_times_out:
  assumes "0 < T"
    and "ipcRendererInvoke (channelName opts External channel)
           (case dat of None \<Rightarrow> VArr [] | Some d \<Rightarrow> d) = Some (tr, out)"
    and "nat T < tr"
    and "nat T \<le> t"
  shows "invoke opts ipcRendererInvoke channel (Some T) dat =
           [(nat T, Rejected (Error ''Invoke function timed out'')), (tr, out)]
       \<and> observed (invoke opts ipcRendererInvoke channel (Some T) dat) t =
           Some (Rejected (Error ''Invoke function timed out''))
       \<and> observed (invoke opts ipcRendererInvoke channel (Some T) dat) (max t tr) =
           Some (Rejected (Error ''Invoke function timed out''))
       \<and> observed (invoke opts (\<lambda>ipcChannel d. None) channel (Some T) dat) t =
           Some (Rejected (Error ''Invoke function timed out''))"
  using assms
  by (simp add: invoke_def invokeTimer_def raceAttempts_def observed_def awaitAttempts_def)

theorem invoke_times_out_witness:
  "(0::int) < 50
   \<and> sampleTransport (channelName sampleOptions External ''slow'')
        (case Some (VArr []) of None \<Rightarrow> VArr [] | Some d \<Rightarrow> d) = Some (200, Fulfilled (VBool True))
   \<and> nat 50 < (200::nat) \<and> nat 50 \<le> (300::nat)
   \<and> observed (invoke sampleOptions sampleTransport ''slow'' (Some 50) (Some (VArr []))) 300 =
           Some (Rejected (Error ''Invoke function timed out''))"
proof -
  have h1: "(0::int) < 50" and h3: "nat 50 < (200::nat)" and h4: "nat 50 \<le> (300::nat)"
    by simp_all
  have h2: "sampleTransport (channelName sampleOptions External ''slow'')
        (case Some (VArr []) of None \<Rightarrow> VArr [] | Some d \<Rightarrow> d) = Some (200, Fulfilled (VBool True))"
    by code_simp
  have "observed (invoke sampleOptions sampleTransport ''slow'' (Some 50) (Some (VArr []))) 300 =
           Some (Rejected (Error ''Invoke function timed out''))"
    using invoke_times_out
      [where opts = sampleOptions and ipcRendererInvoke = sampleTransport and channel = "''slow''"
         and dat = "Some (VArr [])" and T = 50 and tr = 200 and t = 300
         and out = "Fulfilled (VBool True)", OF h1 h2 h3 h4]
    by blast
  then show ?thesis by (intro conjI h1 h2 h3 h4)
qed

text \<open>
  C10: with a timeout that is omitted, zero or negative, neither \<open>invoke\<close> nor
  \<open>processFunction\<close> installs a timer or a race. The call settles exactly as the
  underlying operation does, so it is never rejected by a timeout of its own, and it stays
  pending for as long as the operation does.
\<close>

theorem no_timer_without_positive_timeout:
  assumes "tmo = None \<or> (\<exists>T. tmo = Some T \<and> T \<le> 0)"
  shows "invokeTimer tmo = None
       \<and> invoke opts ipcRendererInvoke channel tmo dat =
           awaitAttempts (ipcRendererInvoke (channelName opts External channel)
                            (case dat of None \<Rightarrow> VArr [] | Some d \<Rightarrow> d))
       \<and> observed (invoke opts (\<lambda>ipcChannel d. None) channel tmo dat) t = None
       \<and> observed (invoke opts (\<lambda>ipcChannel d. Some (u, out)) channel tmo dat) t =
           (if u \<le> t then Some out else None)
       \<and> processTimer fn args tmo = None
       \<and> processFunction fn args tmo =
           (case fn args of
              Diverges \<Rightarrow> []
            | Completes d (Throws e) \<Rightarrow> [(d, Rejected e)]
            | Completes d (Returns v) \<Rightarrow> [(d, Fulfilled v)]
            | Completes d (ReturnsPromise s) \<Rightarrow> awaitAttempts (map_option (\<lambda>a. (d + fst a, snd a)) s))
       \<and> observed (processFunction (\<lambda>a. Completes k (ReturnsPromise None)) args tmo) t = None
       \<and> observed (processFunction (\<lambda>a. Completes k (ReturnsPromise (Some (u, out)))) args tmo) t =
           (if k + u \<le> t then Some out else None)"
proof -
  have a: "invokeTimer tmo = None"
    using assms by (auto simp: invokeTimer_def)
  have b: "processTimer f x tmo = None" for f :: "'b \<Rightarrow> run" and x
    using assms by (auto simp: processTimer_def split: run.splits behaviour.splits)
  show ?thesis
    by (simp add: a b invoke_def processFunction_def awaitAttempts_def observed_def
        split: run.splits behaviour.splits)
qed

theorem no_timer_without_positive_timeout_witness:
  "(Some (0::int) = None \<or> (\<exists>T. Some (0::int) = Some T \<and> T \<le> 0))
   \<and> invoke sampleOptions sampleTransport ''slow'' (Some 0) (Some (VArr [])) =
         awaitAttempts (sampleTransport (channelName sampleOptions External ''slow'')
                          (case Some (VArr []) of None \<Rightarrow> VArr [] | Some d \<Rightarrow> d))
   \<and> observed (invoke sampleOptions (\<lambda>ipcChannel d. None) ''slow'' (Some 0) (Some (VArr []))) 300 = None
   \<and> processFunction (case_prod hangingListener)
        (VArr [], \<lparr>requestId = None, senderId = 1, meta_timeout = Some 0\<rparr>) (Some 0) = []"
proof -
  have h: "Some (0::int) = None \<or> (\<exists>T. Some (0::int) = Some T \<and> T \<le> 0)"
    by simp
  note inst = no_timer_without_positive_timeout
      [where tmo = "Some 0" and opts = sampleOptions and ipcRendererInvoke = sampleTransport
         and channel = "''slow''" and dat = "Some (VArr [])" and t = 300 and u = 0 and k = 0
         and out = "Fulfilled Undefined" and fn = "case_prod hangingListener"
         and args = "(VArr [], \<lparr>requestId = None, senderId = 1, meta_timeout = Some 0\<rparr>)", OF h]
  have "processFunction (case_prod hangingListener)
        (VArr [], \<lparr>requestId = None, senderId = 1, meta_timeout = Some 0\<rparr>) (Some 0) =
        (case case_prod hangingListener
                (VArr [], \<lparr>requestId = None, senderId = 1, meta_timeout = Some 0\<rparr>) of
              Diverges \<Rightarrow> []
            | Completes d (Throws e) \<Rightarrow> [(d, Rejected e)]
            | Completes d (Returns v) \<Rightarrow> [(d, Fulfilled v)]
            | Completes d (ReturnsPromise s) \<Rightarrow> awaitAttempts (map_option (\<lambda>a. (d + fst a, snd a)) s))"
    using inst by blast
  then have p: "processFunction (case_prod hangingListener)
        (VArr [], \<lparr>requestId = None, senderId = 1, meta_timeout = Some 0\<rparr>) (Some 0) = []"
    by (simp add: hangingListener_def awaitAttempts_def)
  show ?thesis
    using h p inst by blast
qed

section \<open>Wrapped listeners\<close>












section \<open>The relay\<close>

lemma returned_reject [simp]:
  "returned (rejectPendingRequest rid e st) = returned st"
  by (simp add: rejectPendingRequest_def clearEntryTimeout_def clearTimeout_def Let_def
      split: option.splits)

lemma returned_resolve [simp]:
  "returned (resolvePendingRequest rid d st) = returned st"
  by (simp add: resolvePendingRequest_def clearEntryTimeout_def clearTimeout_def Let_def
      split: option.splits)

lemma returned_hubStep:
  "set (returned (hubStep ev st)) \<subseteq> set (returned st) \<union> {x. \<exists>c v. x = (c, Fulfilled v)}"
proof (cases ev)
  case (InvokeTo c sender channel ro)
  then show ?thesis
    by (auto simp: handleInvokeTo_def generateId_def addPendingRequest_def Let_def
        split: sum.splits prod.splits)
next
  case (ReplyTo rid d e)
  then show ?thesis
    by (auto simp: handleReplyTo_def split: option.splits)
next
  case (SendTo sender channel ro)
  then show ?thesis
    by (auto simp: handleSendTo_def split: sum.splits)
next
  case (TimerFires h)
  then show ?thesis
    by (auto simp: timerFires_def clearTimeout_def Let_def split: option.splits)
next
  case (Resume c)
  then show ?thesis
    by (auto simp: resumeInvokeTo_def Let_def split: option.splits outcome.splits)
qed

lemma returned_run:
  "set (returned (fold hubStep evs st)) \<subseteq> set (returned st) \<union> {x. \<exists>c v. x = (c, Fulfilled v)}"
proof (induction evs arbitrary: st)
  case Nil
  show ?case by simp
next
  case (Cons ev evs)
  show ?case
    using Cons.IH [of "hubStep ev st"] returned_hubStep [of ev st] by auto
qed

text \<open>
  Whatever happens at the hub, the invoke-to handler never hands a rejection back to the
  caller: every invocation that finishes returns a value.
\<close>

lemma relayed_call_never_rejects:
  "callerResult (fold hubStep evs (newIpcMainService opts ids live)) c \<noteq> Some (Rejected err)"
proof
  assume "callerResult (fold hubStep evs (newIpcMainService opts ids live)) c = Some (Rejected err)"
  then have "(c, Rejected err) \<in> set (returned (fold hubStep evs (newIpcMainService opts ids live)))"
    by (simp add: callerResult_def map_of_SomeD)
  moreover have "returned (newIpcMainService opts ids live) = []"
    by (simp add: newIpcMainService_def)
  ultimately show False
    using returned_run [of evs "newIpcMainService opts ids live"] by auto
qed

lemma findTarget_generateId [simp]:
  "findTarget (snd (generateId st)) ro = findTarget st ro"
  by (simp add: findTarget_def generateId_def split: option.splits)

lemma handleInvokeTo_unresolved:
  assumes "findTarget st ro = Inl err"
  shows "handleInvokeTo c sender channel ro st =
     (rejectPendingRequest (idSource st (idCount st)) (Some err) (st\<lparr>idCount := Suc (idCount st)\<rparr>))
       \<lparr>returned := returned st @ [(c, Fulfilled Undefined)]\<rparr>"
proof -
  have "findTarget (snd (generateId st)) ro = Inl err"
    using assms by simp
  then show ?thesis
    by (simp add: handleInvokeTo_def split_beta Let_def) (simp add: generateId_def)
qed

lemma handleInvokeTo_resolved:
  assumes "findTarget st ro = Inr tgt"
  shows "handleInvokeTo c sender channel ro st =
     (addPendingRequest (idSource st (idCount st)) c c (Some (nextTimer st))
       (st\<lparr>idCount := Suc (idCount st),
           nextTimer := Suc (nextTimer st),
           activeTimers := activeTimers st @ [nextTimer st],
           timerTasks := timerTasks st @ [(nextTimer st, idSource st (idCount st),
             (case req_timeout ro of None \<Rightarrow> pendingRequestTimeout (options st) | Some t \<Rightarrow> Some t))],
           sent := sent st @
             [\<lparr>target = tgt, sent_channel = channel, sent_data = req_data ro,
               sent_meta = \<lparr>requestId = Some (idSource st (idCount st)), senderId = sender,
                 meta_timeout = (case req_timeout ro of None \<Rightarrow> pendingRequestTimeout (options st)
                                 | Some t \<Rightarrow> Some t)\<rparr>\<rparr>]\<rparr>))
       \<lparr>awaiting := awaiting st @ [(c, idSource st (idCount st))]\<rparr>"
proof -
  have "findTarget (snd (generateId st)) ro = Inr tgt"
    using assms by simp
  then show ?thesis
    by (simp add: handleInvokeTo_def split_beta Let_def)
       (simp add: generateId_def addPendingRequest_def split: option.splits)
qed

lemma sent_reject [simp]: "sent (rejectPendingRequest rid e st) = sent st"
  by (simp add: rejectPendingRequest_def clearEntryTimeout_def clearTimeout_def Let_def
      split: option.splits)

lemma unresolved_target_sends_nothing:
  assumes "targetWebContentsId (options st) ro = None \<or> targetWebContentsId (options st) ro = Some 0"
  shows "findTarget st ro = Inl (Error ''webContentsId is required'')
       \<and> handleSendTo sender channel ro st = Inl (Error ''webContentsId is required'')
       \<and> sent (handleInvokeTo c sender channel ro st) = sent st"
proof -
  have t: "findTarget st ro = Inl (Error ''webContentsId is required'')"
    using assms by (auto simp: findTarget_def)
  show ?thesis
    using t by (simp add: handleSendTo_def handleInvokeTo_unresolved [OF t])
qed

text \<open>
  C1: what the code does with the four failures of a relayed call. With an unresolved
  target, with a target that has no connection, after the relay timeout, and after a
  reply that carries the handler's error, the caller's awaited result is fulfilled with
  \<open>undefined\<close>; it is not rejected.
\<close>

theorem relay_failures_fulfil_with_undefined:
  "callerResult (fold hubStep
      [InvokeTo 0 1 ''ipc-service:external:testSub'' (relayRequest None (Some [VStr ''main'']) None)]
      sampleHub) 0 = Some (Fulfilled Undefined)
   \<and> callerResult (fold hubStep
      [InvokeTo 0 1 ''ipc-service:external:testSub'' (relayRequest None None (Some 99))]
      sampleHub) 0 = Some (Fulfilled Undefined)
   \<and> callerResult (fold hubStep
      [InvokeTo 0 1 ''ipc-service:external:testSub'' (relayRequest None (Some [VStr ''sub'']) None),
       TimerFires 0, Resume 0]
      sampleHub) 0 = Some (Fulfilled Undefined)
   \<and> callerResult (fold hubStep
      [InvokeTo 0 1 ''ipc-service:external:testSub'' (relayRequest None (Some [VStr ''sub'']) None),
       ReplyTo (Some ''id-0'') Undefined (Some (Error ''boom'')), Resume 0]
      sampleHub) 0 = Some (Fulfilled Undefined)"
  by code_simp

text \<open>
  C3: what the code does when no target identifier can be derived (the lookup knows no
  window \<open>main\<close>). The error \<open>webContentsId is required\<close> is raised on both paths and no
  message is forwarded; the send-to listener throws it, but the invoke-to handler
  catches it and returns \<open>undefined\<close> to the caller.
\<close>

theorem unresolved_target_not_surfaced:
  "findTarget sampleHub (relayRequest None (Some [VStr ''main'']) None)
      = Inl (Error ''webContentsId is required'')
   \<and> handleSendTo 1 ''ipc-service:external:testSub'' (relayRequest None (Some [VStr ''main'']) None) sampleHub
      = Inl (Error ''webContentsId is required'')
   \<and> sent (handleInvokeTo 0 1 ''ipc-service:external:testSub''
        (relayRequest None (Some [VStr ''main'']) None) sampleHub) = []
   \<and> invoked (handleInvokeTo 0 1 ''ipc-service:external:testSub''
        (relayRequest None (Some [VStr ''main'']) None) sampleHub) = []
   \<and> callerResult (handleInvokeTo 0 1 ''ipc-service:external:testSub''
        (relayRequest None (Some [VStr ''main'']) None) sampleHub) 0 = Some (Fulfilled Undefined)"
proof -
  have t: "findTarget sampleHub (relayRequest None (Some [VStr ''main'']) None)
      = Inl (Error ''webContentsId is required'')"
    by code_simp
  have s: "handleSendTo 1 ''ipc-service:external:testSub'' (relayRequest None (Some [VStr ''main'']) None) sampleHub
      = Inl (Error ''webContentsId is required'')"
    by (simp add: handleSendTo_def t)
  have i: "sent (handleInvokeTo 0 1 ''ipc-service:external:testSub''
        (relayRequest None (Some [VStr ''main'']) None) sampleHub) = []"
    by code_simp
  have j: "invoked (handleInvokeTo 0 1 ''ipc-service:external:testSub''
        (relayRequest None (Some [VStr ''main'']) None) sampleHub) = []"
    by code_simp
  have c: "callerResult (handleInvokeTo 0 1 ''ipc-service:external:testSub''
        (relayRequest None (Some [VStr ''main'']) None) sampleHub) 0 = Some (Fulfilled Undefined)"
    by code_simp
  show ?thesis using t s i j c by blast
qed

text \<open>
  C2, as the code has it: the request id is generated by the hub. When the target
  resolves, that id is the one in the relay metadata delivered to the target and the key
  of the hub's pending entry; every reply the wrapped listener sends for that message
  carries the same id, and the reply-to handler settles exactly that entry with it.
\<close>

theorem request_id_round_trip:
  assumes "findTarget st ro = Inr tgt"
  shows "(let rid = idSource st (idCount st);
              st1 = handleInvokeTo c sender channel ro st
          in sent st1 = sent st @
               [\<lparr>target = tgt, sent_channel = channel, sent_data = req_data ro,
                 sent_meta = \<lparr>requestId = Some rid, senderId = sender,
                   meta_timeout = (case req_timeout ro of None \<Rightarrow> pendingRequestTimeout (options st)
                                   | Some t \<Rightarrow> Some t)\<rparr>\<rparr>]
           \<and> map_of (pendingRequests st1) rid =
                 Some \<lparr>resolve = c, reject = c, timeout = Some (nextTimer st)\<rparr>
           \<and> (\<forall>r \<in> set (wrapListener opts listener (sent_data (last (sent st1)))
                             (sent_meta (last (sent st1)))).
                  reply_requestId (snd r) = Some rid
                \<and> invoked (handleReplyTo (reply_requestId (snd r)) (reply_data (snd r))
                              (reply_error (snd r)) st1)
                    = invoked st1 @
                      [case reply_error (snd r) of
                         None \<Rightarrow> Resolve c (reply_data (snd r))
                       | Some e \<Rightarrow> Reject c e]
                \<and> map_of (pendingRequests (handleReplyTo (reply_requestId (snd r)) (reply_data (snd r))
                              (reply_error (snd r)) st1)) rid = None))"
proof -
  define rid where "rid = idSource st (idCount st)"
  define st1 where "st1 = handleInvokeTo c sender channel ro st"
  define pr where "pr = \<lparr>resolve = c, reject = c, timeout = Some (nextTimer st)\<rparr>"
  have s: "sent st1 = sent st @
               [\<lparr>target = tgt, sent_channel = channel, sent_data = req_data ro,
                 sent_meta = \<lparr>requestId = Some rid, senderId = sender,
                   meta_timeout = (case req_timeout ro of None \<Rightarrow> pendingRequestTimeout (options st)
                                   | Some t \<Rightarrow> Some t)\<rparr>\<rparr>]"
    by (simp add: st1_def rid_def handleInvokeTo_resolved [OF assms] addPendingRequest_def)
  have p: "map_of (pendingRequests st1) rid = Some pr"
    by (simp add: st1_def rid_def pr_def handleInvokeTo_resolved [OF assms] addPendingRequest_def
        AList.update_conv')
  have m: "requestId (sent_meta (last (sent st1))) = Some rid"
    by (simp add: s)
  have r: "reply_requestId (snd r) = Some rid
         \<and> invoked (handleReplyTo (reply_requestId (snd r)) (reply_data (snd r)) (reply_error (snd r)) st1)
              = invoked st1 @ [case reply_error (snd r) of None \<Rightarrow> Resolve c (reply_data (snd r))
                               | Some e \<Rightarrow> Reject c e]
         \<and> map_of (pendingRequests (handleReplyTo (reply_requestId (snd r)) (reply_data (snd r))
                              (reply_error (snd r)) st1)) rid = None"
    if "r \<in> set (wrapListener opts listener (sent_data (last (sent st1))) (sent_meta (last (sent st1))))"
    for r
  proof -
    have i: "reply_requestId (snd r) = Some rid"
      using that m by (auto simp: wrapListener_def replyOf_def split: option.splits)
    show ?thesis
    proof (cases "reply_error (snd r)")
      case None
      then show ?thesis
        using i resolve_present [OF p] by (simp add: handleReplyTo_def map_of_delete_same pr_def)
    next
      case (Some e)
      then show ?thesis
        using i reject_present [OF p] by (simp add: handleReplyTo_def map_of_delete_same pr_def)
    qed
  qed
  show ?thesis
    unfolding Let_def
    using s p r unfolding rid_def st1_def pr_def by blast
qed

theorem request_id_round_trip_witness:
  "findTarget sampleHub (relayRequest None (Some [VStr ''sub'']) None) = Inr 2
   \<and> (0, \<lparr>reply_channel = ''ipc-service:internal:reply-to'', reply_requestId = Some ''id-0'',
           reply_data = VBool True, reply_error = None\<rparr>)
       \<in> set (wrapListener sampleOptions trueListener
               (sent_data (last (sent (handleInvokeTo 0 1 ''ipc-service:external:testSub''
                  (relayRequest None (Some [VStr ''sub'']) None) sampleHub))))
               (sent_meta (last (sent (handleInvokeTo 0 1 ''ipc-service:external:testSub''
                  (relayRequest None (Some [VStr ''sub'']) None) sampleHub)))))
   \<and> Some ''id-0'' = Some (idSource sampleHub (idCount sampleHub))
   \<and> invoked (handleReplyTo (Some ''id-0'') (VBool True) None
        (handleInvokeTo 0 1 ''ipc-service:external:testSub''
           (relayRequest None (Some [VStr ''sub'']) None) sampleHub))
       = invoked (handleInvokeTo 0 1 ''ipc-service:external:testSub''
           (relayRequest None (Some [VStr ''sub'']) None) sampleHub) @ [Resolve 0 (VBool True)]
   \<and> callerResult (fold hubStep
        [InvokeTo 0 1 ''ipc-service:external:testSub'' (relayRequest None (Some [VStr ''sub'']) None),
         ReplyTo (Some ''id-0'') (VBool True) None, Resume 0] sampleHub) 0
       = Some (Fulfilled (VBool True))"
proof -
  let ?st1 = "handleInvokeTo 0 1 ''ipc-service:external:testSub''
                  (relayRequest None (Some [VStr ''sub'']) None) sampleHub"
  let ?r = "(0::nat, \<lparr>reply_channel = ''ipc-service:internal:reply-to'', reply_requestId = Some ''id-0'',
           reply_data = VBool True, reply_error = None\<rparr>)"
  have h: "findTarget sampleHub (relayRequest None (Some [VStr ''sub'']) None) = Inr 2"
    by code_simp
  have m: "?r \<in> set (wrapListener sampleOptions trueListener (sent_data (last (sent ?st1)))
               (sent_meta (last (sent ?st1))))"
    by code_simp
  have k: "Some ''id-0'' = Some (idSource sampleHub (idCount sampleHub))"
    by code_simp
  have "reply_requestId (snd ?r) = Some (idSource sampleHub (idCount sampleHub))
      \<and> invoked (handleReplyTo (reply_requestId (snd ?r)) (reply_data (snd ?r)) (reply_error (snd ?r)) ?st1)
          = invoked ?st1 @ [case reply_error (snd ?r) of None \<Rightarrow> Resolve 0 (reply_data (snd ?r))
                             | Some e \<Rightarrow> Reject 0 e]"
    using request_id_round_trip [OF h, of 0 1 "''ipc-service:external:testSub''" sampleOptions trueListener] m
    unfolding Let_def by blast
  then have "invoked (handleReplyTo (reply_requestId (snd ?r)) (reply_data (snd ?r)) (reply_error (snd ?r)) ?st1)
          = invoked ?st1 @ [case reply_error (snd ?r) of None \<Rightarrow> Resolve 0 (reply_data (snd ?r))
                             | Some e \<Rightarrow> Reject 0 e]"
    by (rule conjunct2)
  then have i: "invoked (handleReplyTo (Some ''id-0'') (VBool True) None ?st1)
       = invoked ?st1 @ [Resolve 0 (VBool True)]"
    by simp
  have e: "callerResult (fold hubStep
        [InvokeTo 0 1 ''ipc-service:external:testSub'' (relayRequest None (Some [VStr ''sub'']) None),
         ReplyTo (Some ''id-0'') (VBool True) None, Resume 0] sampleHub) 0
       = Some (Fulfilled (VBool True))"
    by code_simp
  show ?thesis by (intro conjI h m k i e)
qed

lemma invokeTo_leaves_service:
  "snd (invokeTo st channel ro) = st \<and> snd (sendTo st channel ro) = st"
  by (simp add: invokeTo_def sendTo_def)

text \<open>
  The caller generates no request id and registers no pending entry: \<open>invokeTo\<close> leaves
  the caller's service untouched, and the id in the metadata is the first one of the
  hub's generator, not one of the caller's.
\<close>

theorem caller_generates_no_id_counterexample:
  "snd (invokeTo sampleRenderer ''testSub'' (relayRequest None (Some [VStr ''sub'']) None)) = sampleRenderer
   \<and> idCount (snd (invokeTo sampleRenderer ''testSub'' (relayRequest None (Some [VStr ''sub'']) None))) = 0
   \<and> pendingRequests (snd (invokeTo sampleRenderer ''testSub'' (relayRequest None (Some [VStr ''sub'']) None))) = []
   \<and> fst (generateId sampleRenderer) = ''caller-0''
   \<and> requestId (sent_meta (last (sent (handleInvokeTo 0 1
        (call_operation (fst (invokeTo sampleRenderer ''testSub'' (relayRequest None (Some [VStr ''sub'']) None))))
        (call_options (fst (invokeTo sampleRenderer ''testSub'' (relayRequest None (Some [VStr ''sub'']) None))))
        sampleHub)))) = Some ''id-0''
   \<and> idCount (handleInvokeTo 0 1
        (call_operation (fst (invokeTo sampleRenderer ''testSub'' (relayRequest None (Some [VStr ''sub'']) None))))
        (call_options (fst (invokeTo sampleRenderer ''testSub'' (relayRequest None (Some [VStr ''sub'']) None))))
        sampleHub) = 1"
  apply (intro conjI)
       apply (simp add: invokeTo_def)
      apply code_simp
     apply code_simp
    apply code_simp
   apply code_simp
  apply code_simp
  done

end
